theory Spec2Isabelle
  imports Main
begin

section \<open>The RabbitMQ connection facade of mercury\<close>

text \<open>
  A shallow embedding of \<^verbatim>\<open>RabbitMQConnectionFacade\<close> and of
  \<^verbatim>\<open>RabbitMQMessageBus.configure\<close>. The broker library (amqplib) is a capability
  the facade consumes: every call the facade makes on the connection or on the channel
  is recorded, in order, in a trace, and the answer of the library to a call (accepted, or an
  error raised) is a parameter of the model. An exception of the source is the left
  summand of the result; the state travels with it, since the effects made before a
  \<^verbatim>\<open>throw\<close> stay made.
\<close>

subsection \<open>Data\<close>

text \<open>One entry of the broker's dead-letter history, the header \<^verbatim>\<open>x-death\<close>.\<close>

record x_death_entry =
  count :: int
  reason :: string

text \<open>
  The headers the facade reads or writes. A header that is absent (\<^verbatim>\<open>undefined\<close>, or
  \<^verbatim>\<open>null\<close> for the parent) is \<open>None\<close>; so is the headers table of a message that
  was published without one, which the library hands over as \<^verbatim>\<open>undefined\<close>.
\<close>

record message_headers =
  x_death :: "x_death_entry list option"
  parentMessage :: "string option"

record message_properties =
  headers :: "message_headers option"
  messageId :: "string option"
  timestamp :: "int option"
  appId :: "string option"

text \<open>The options object of \<^verbatim>\<open>channel.publish\<close>: message properties and the persistence flag.\<close>

record publish_options = message_properties +
  persistent :: bool

text \<open>A raw delivery, amqplib's \<^verbatim>\<open>ConsumeMessage\<close>.\<close>

record consume_message =
  content :: string
  routingKey :: string
  deliveryTag :: nat
  properties :: message_properties

text \<open>
  Modelled from the spec: the interface \<^verbatim>\<open>Message\<close> and the class \<^verbatim>\<open>JSONMessage\<close>
  are not among the sources. The spec gives an application message the fields
  topic/descriptor, serialized body, identifier, timestamp and parent identifier; the
  record has one field for each getter the facade calls, and the constructor stores its
  five arguments in them.
\<close>

record mercury_message =
  getDescriptor :: string
  getSerializedContent :: string
  getUUID :: string
  getTimestamp :: "int option"
  getParentMessage :: "string option"

definition JSONMessage ::
  "string \<Rightarrow> string \<Rightarrow> string \<Rightarrow> int option \<Rightarrow> string option \<Rightarrow> mercury_message" where
  "JSONMessage descriptor body uuid ts parent =
     \<lparr>getDescriptor = descriptor, getSerializedContent = body, getUUID = uuid,
      getTimestamp = ts, getParentMessage = parent\<rparr>"

text \<open>
  Numbers. The numbers of the source are doubles; the ones the facade computes with are
  integers here. The product of two integers that are doubles is the exact product rounded
  to the nearest double, to the even one of two equally near, and infinite beyond the
  doubles.
  \<open>bit_length n\<close> is the number of binary digits of \<open>n\<close>; a double holds 53 of them.
\<close>

datatype js_number = Finite int | Infinity | MinusInfinity

fun bit_length :: "nat \<Rightarrow> nat" where
  "bit_length n = (if n = 0 then 0 else Suc (bit_length (n div 2)))"

declare bit_length.simps [simp del]

definition to_double :: "int \<Rightarrow> js_number" where
  "to_double n =
     (let a = nat \<bar>n\<bar>; digits = bit_length a
      in if digits \<le> 53 then Finite n
         else (let u = 2 ^ (digits - 53);
                   q = a div u;
                   r = a mod u;
                   q' = (if u < 2 * r \<or> (2 * r = u \<and> odd q) then q + 1 else q);
                   v = q' * u
               in if 2 ^ 1024 \<le> v
                  then (if n < 0 then MinusInfinity else Infinity)
                  else Finite (sgn n * int v)))"

definition times :: "int \<Rightarrow> int \<Rightarrow> js_number" where
  "times a b = to_double (a * b)"

text \<open>The calls the facade makes on the broker library, with their arguments.\<close>

datatype broker_call =
    Connect string nat string string
  | CreateChannel
  | AssertExchange string string bool bool
  | AssertQueue string bool bool string "js_number option"
  | BindExchange string string string
  | BindQueue string string string
  | Consume string
  | Publish string string string publish_options
  | Ack "consume_message option"
  | Nack "consume_message option" bool bool
  | CloseChannel
  | CloseConnection

text \<open>
  \<open>AssertExchange name kind durable autoDelete\<close>;
  \<open>AssertQueue name durable autoDelete deadLetterExchange ttl\<close>, where \<open>ttl\<close> is the
  argument \<^verbatim>\<open>x-message-ttl\<close> when one is given;
  \<open>BindExchange destination source routingKey\<close>; \<open>BindQueue queue source routingKey\<close>;
  \<open>Publish exchange routingKey body options\<close>; \<open>Nack delivery allUpTo requeue\<close>.
  The delivery of \<open>Ack\<close> and \<open>Nack\<close> is \<open>None\<close> when the source passes
  \<^verbatim>\<open>undefined\<close>.
\<close>

datatype error =
    TypeError
  | IllegalOperationError string
  | BrokerError string

text \<open>
  \<open>TypeError\<close> is what JavaScript raises on a property read of \<^verbatim>\<open>undefined\<close>. The
  other two are raised by the library: \<open>IllegalOperationError\<close> is its error for a call on
  a channel or connection that is already closed, \<open>BrokerError\<close> any other rejection.
\<close>

text \<open>
  The environment: the library's answer to a call, given the calls made so far, and the
  wall clock, \<open>clock env k\<close> being what the \<open>k\<close>-th reading of
  \<^verbatim>\<open>new Date().getTime()\<close> returns.
\<close>

record env =
  broker :: "broker_call list \<Rightarrow> broker_call \<Rightarrow> error option"
  clock :: "nat \<Rightarrow> int"

text \<open>
  The fields of the facade that the constructor fixes, and the state that changes:
  whether \<^verbatim>\<open>this.connection\<close> and \<^verbatim>\<open>this.channel\<close> hold an object, the in-flight table
  \<^verbatim>\<open>messagePool\<close>, the calls made on the library, the events handed to the emitter,
  and the number of clock readings.
\<close>

record facade =
  exchange :: string
  deadLetterExchange :: string
  queue :: string
  retryQueue :: string
  appName :: string
  delayRetry :: int

record state =
  connection :: bool
  channel :: bool
  messagePool :: "string \<rightharpoonup> consume_message"
  trace :: "broker_call list"
  emitted :: "(string \<times> mercury_message) list"
  reads :: nat

definition main_bus :: string where
  "main_bus = ''mercury_bus''"

definition RabbitMQConnectionFacade :: "string \<Rightarrow> string \<Rightarrow> int \<Rightarrow> facade" where
  "RabbitMQConnectionFacade serviceName app delay =
     \<lparr>exchange = serviceName,
      deadLetterExchange = serviceName @ ''_dlx'',
      queue = serviceName @ ''_queue'',
      retryQueue = (serviceName @ ''_queue'') @ ''_retry'',
      appName = app,
      delayRetry = delay\<rparr>"

subsection \<open>Exceptions and state\<close>

type_synonym 'a io = "state \<Rightarrow> (error + 'a) \<times> state"

definition bind_io :: "'a io \<Rightarrow> ('a \<Rightarrow> 'b io) \<Rightarrow> 'b io" where
  "bind_io m f s = (case m s of (Inl e, s') \<Rightarrow> (Inl e, s') | (Inr a, s') \<Rightarrow> f a s')"

definition then_io :: "unit io \<Rightarrow> 'b io \<Rightarrow> 'b io" where
  "then_io m n = bind_io m (\<lambda>_. n)"

text \<open>A \<^verbatim>\<open>for ... of\<close> loop over an array: the first exception ends it.\<close>

fun for_each :: "('a \<Rightarrow> unit io) \<Rightarrow> 'a list \<Rightarrow> unit io" where
  "for_each f [] s = (Inr (), s)"
| "for_each f (x # xs) s =
     (case f x s of (Inl e, s') \<Rightarrow> (Inl e, s') | (Inr _, s') \<Rightarrow> for_each f xs s')"

text \<open>
  A call on the library: it is recorded, and the library accepts it or raises. A call
  on \<^verbatim>\<open>this.channel\<close> is a \<open>TypeError\<close> while the field holds no channel, and then
  nothing is called.
\<close>

definition call :: "env \<Rightarrow> broker_call \<Rightarrow> unit io" where
  "call e c s =
     (case broker e (trace s) c of
        Some err \<Rightarrow> (Inl err, s\<lparr>trace := trace s @ [c]\<rparr>)
      | None \<Rightarrow> (Inr (), s\<lparr>trace := trace s @ [c]\<rparr>))"

definition channel_call :: "env \<Rightarrow> broker_call \<Rightarrow> unit io" where
  "channel_call e c s = (if channel s then call e c s else (Inl TypeError, s))"

text \<open>JavaScript truthiness of a string that may be undefined, and of a number that may be.\<close>

fun truthy_string :: "string option \<Rightarrow> bool" where
  "truthy_string None = False"
| "truthy_string (Some s) = (s \<noteq> [])"

fun truthy_number :: "int option \<Rightarrow> bool" where
  "truthy_number None = False"
| "truthy_number (Some n) = (n \<noteq> 0)"

subsection \<open>Publishing and subscribing\<close>

text \<open>
  \<^verbatim>\<open>publish(message, alternativeExchange = null)\<close>. The member \<^verbatim>\<open>this.channel.publish\<close>
  is read before the arguments are evaluated, so without a channel the clock is not read.
\<close>

definition publish :: "env \<Rightarrow> facade \<Rightarrow> mercury_message \<Rightarrow> string option \<Rightarrow> unit io" where
  "publish e f message alternativeExchange s =
     (let target = (case alternativeExchange of
                      None \<Rightarrow> main_bus
                    | Some a \<Rightarrow> if truthy_string (Some a) then a else main_bus)
      in if channel s
         then call e
                (Publish target (getDescriptor message) (getSerializedContent message)
                   \<lparr>headers = Some \<lparr>x_death = None, parentMessage = getParentMessage message\<rparr>,
                    messageId = Some (getUUID message),
                    timestamp = Some (clock e (reads s)),
                    appId = Some (appName f),
                    persistent = True\<rparr>)
                (s\<lparr>reads := Suc (reads s)\<rparr>)
         else (Inl TypeError, s))"

definition subscribe :: "env \<Rightarrow> facade \<Rightarrow> string \<Rightarrow> unit io" where
  "subscribe e f descriptor = channel_call e (BindQueue (queue f) (exchange f) descriptor)"

text \<open>
  What a caller can hand to \<^verbatim>\<open>subscribeAll\<close> at run time: an array of descriptors, or
  something else (a \<^verbatim>\<open>Map\<close>, \<^verbatim>\<open>null\<close>, \<^verbatim>\<open>undefined\<close>).
\<close>

datatype js_value =
    JArray "string list"
  | JMap "(string \<times> string) list"
  | JNull
  | JUndefined

fun isArray :: "js_value \<Rightarrow> bool" where
  "isArray (JArray _) = True"
| "isArray _ = False"

fun subscribeAll :: "env \<Rightarrow> facade \<Rightarrow> js_value \<Rightarrow> unit io" where
  "subscribeAll e f (JArray descriptors) s = for_each (subscribe e f) descriptors s"
| "subscribeAll e f v s = (Inr (), s)"

subsection \<open>Provisioning\<close>

text \<open>
  \<^verbatim>\<open>setUp\<close> awaits seven calls on the channel one after the other; a rejection ends
  it (the \<^verbatim>\<open>try\<close> around the fifth rethrows what it catches).
\<close>

definition setUp_calls :: "facade \<Rightarrow> broker_call list" where
  "setUp_calls f =
     [AssertExchange main_bus ''fanout'' True False,
      AssertExchange (exchange f) ''direct'' True False,
      AssertExchange (deadLetterExchange f) ''fanout'' True False,
      AssertQueue (queue f) True False (deadLetterExchange f) None,
      AssertQueue (retryQueue f) True False (exchange f) (Some (times (delayRetry f) 1000)),
      BindExchange (exchange f) main_bus [],
      BindQueue (retryQueue f) (deadLetterExchange f) []]"

definition setUp :: "env \<Rightarrow> facade \<Rightarrow> unit io" where
  "setUp e f = for_each (channel_call e) (setUp_calls f)"

subsection \<open>The outcome handlers and the consumer\<close>

text \<open>
  The listener of \<^verbatim>\<open>MESSAGE_PROCESS_ERROR\<close>. Of its four arguments it reads the
  message identifier and \<^verbatim>\<open>maxRetries\<close> (\<open>None\<close> when not given), which it
  replaces by \<^verbatim>\<open>maxRetries ? maxRetries : 60\<close>. The numbers are integers here. An
  \<^verbatim>\<open>x-death\<close> array is truthy also when empty, and reading \<^verbatim>\<open>count\<close> of its
  missing first entry is a \<open>TypeError\<close>, as is reading \<^verbatim>\<open>properties\<close> of a
  delivery the table does not hold and reading \<^verbatim>\<open>x-death\<close> of a headers table that
  is not there.
\<close>

definition retry_limit :: "int option \<Rightarrow> int" where
  "retry_limit maxRetries =
     (case maxRetries of
        None \<Rightarrow> 60
      | Some n \<Rightarrow> if truthy_number (Some n) then n else 60)"

definition on_process_error :: "env \<Rightarrow> string \<Rightarrow> int option \<Rightarrow> unit io" where
  "on_process_error e mid maxRetries s =
     (let message = messagePool s mid;
          s1 = s\<lparr>messagePool := (messagePool s)(mid := None)\<rparr>;
          limit = retry_limit maxRetries
      in case message of
           None \<Rightarrow> (Inl TypeError, s1)
         | Some m \<Rightarrow>
             (case headers (properties m) of
                None \<Rightarrow> (Inl TypeError, s1)
              | Some h \<Rightarrow>
                  (case x_death h of
                     None \<Rightarrow> channel_call e (Nack (Some m) False False) s1
                   | Some [] \<Rightarrow> (Inl TypeError, s1)
                   | Some (d # ds) \<Rightarrow>
                       if count d < limit
                       then channel_call e (Nack (Some m) False False) s1
                       else channel_call e (Ack (Some m)) s1)))"

text \<open>
  The listener of \<^verbatim>\<open>MESSAGE_PROCESS_SUCCESS\<close>; \<open>resultingMessages\<close> is \<open>None\<close>
  when the signal carries none.
\<close>

definition publish_all :: "env \<Rightarrow> facade \<Rightarrow> mercury_message list option \<Rightarrow> unit io" where
  "publish_all e f resultingMessages s =
     (case resultingMessages of
        None \<Rightarrow> (Inr (), s)
      | Some ms \<Rightarrow> for_each (\<lambda>message. publish e f message None) ms s)"

definition on_process_success ::
  "env \<Rightarrow> facade \<Rightarrow> string \<Rightarrow> mercury_message list option \<Rightarrow> unit io" where
  "on_process_success e f mid resultingMessages s =
     bind_io (channel_call e (Ack (messagePool s mid)))
       (\<lambda>_. bind_io (publish_all e f resultingMessages)
          (\<lambda>_ s'. (Inr (), s'\<lparr>messagePool := (messagePool s')(mid := None)\<rparr>))) s"

text \<open>The listener of \<^verbatim>\<open>PROCESS_SUCCESS\<close>.\<close>

definition on_success :: "env \<Rightarrow> facade \<Rightarrow> mercury_message list option \<Rightarrow> unit io" where
  "on_success e f resultingMessages = publish_all e f resultingMessages"

text \<open>
  The callback given to \<^verbatim>\<open>channel.consume\<close>. Its argument is a delivery, as the
  annotation \<^verbatim>\<open>ConsumeMessage\<close> says. The delivery is stored in the table before the
  arguments of the constructor are evaluated, the last of which reads
  \<^verbatim>\<open>parentMessage\<close> of the headers table: without a headers table that is a
  \<open>TypeError\<close>, raised with the delivery stored and nothing emitted. Handing the message
  to the emitter is recorded in \<open>emitted\<close>, under the descriptor it is emitted to; what
  the listeners of the application do with it is theirs.
\<close>

definition on_message :: "env \<Rightarrow> facade \<Rightarrow> consume_message \<Rightarrow> unit io" where
  "on_message e f msg s =
     (if appId (properties msg) = Some (appName f)
      then (case messageId (properties msg) of
              None \<Rightarrow> channel_call e (Ack (Some msg)) s
            | Some mid \<Rightarrow>
                if truthy_string (Some mid)
                then (let descriptor = routingKey msg;
                          s1 = s\<lparr>messagePool := (messagePool s)(mid \<mapsto> msg)\<rparr>
                      in case headers (properties msg) of
                           None \<Rightarrow> (Inl TypeError, s1)
                         | Some h \<Rightarrow>
                             (let message = JSONMessage descriptor (content msg) mid
                                              (timestamp (properties msg)) (parentMessage h)
                              in (Inr (), s1\<lparr>emitted := emitted s1 @ [(descriptor, message)]\<rparr>)))
                else channel_call e (Ack (Some msg)) s)
      else channel_call e (Ack (Some msg)) s)"

subsection \<open>Connecting and disconnecting\<close>


definition disconnect :: "env \<Rightarrow> unit io" where
  "disconnect e s =
     (if connection s
      then then_io (channel_call e CloseChannel)
             (then_io (call e CloseConnection)
                (\<lambda>s'. (Inr (), s'\<lparr>connection := False\<rparr>))) s
      else (Inr (), s))"

subsection \<open>The message bus\<close>


record options_map =
  brokerHostName :: string
  brokerUserName :: string
  brokerPassword :: string
  optAppName :: string
  serviceName :: string
  retryDelay :: int
  filterMessages :: bool




subsection \<open>Notions of the specification\<close>

text \<open>
  The redelivery count as the specification words it: the count of the first entry of the
  dead-letter history, and 0 when there is no history. The decision it prescribes for an
  error outcome: a nack without requeue when the count is below the limit, an ack otherwise.
\<close>

definition death_count :: "consume_message \<Rightarrow> int" where
  "death_count m =
     (case headers (properties m) of
        None \<Rightarrow> 0
      | Some h \<Rightarrow>
          (case x_death h of
             None \<Rightarrow> 0
           | Some [] \<Rightarrow> 0
           | Some (d # ds) \<Rightarrow> count d))"

definition specified_resolution :: "consume_message \<Rightarrow> int option \<Rightarrow> broker_call" where
  "specified_resolution m maxRetries =
     (if death_count m < retry_limit maxRetries
      then Nack (Some m) False False
      else Ack (Some m))"

text \<open>A library that accepts every call.\<close>

definition accepts_all :: "env \<Rightarrow> bool" where
  "accepts_all e = (\<forall>calls c. broker e calls c = None)"

text \<open>
  The call \<^verbatim>\<open>publish\<close> makes for a message on the shared exchange when the clock has
  been read \<open>k\<close> times before.
\<close>

definition publication :: "env \<Rightarrow> facade \<Rightarrow> nat \<Rightarrow> mercury_message \<Rightarrow> broker_call" where
  "publication e f k message =
     Publish main_bus (getDescriptor message) (getSerializedContent message)
       \<lparr>headers = Some \<lparr>x_death = None, parentMessage = getParentMessage message\<rparr>,
        messageId = Some (getUUID message),
        timestamp = Some (clock e k),
        appId = Some (appName f),
        persistent = True\<rparr>"

text \<open>The messages an outcome carries; none when the signal has no array.\<close>

definition messages_of :: "'a list option \<Rightarrow> 'a list" where
  "messages_of resulting = (case resulting of None \<Rightarrow> [] | Some ms \<Rightarrow> ms)"

text \<open>
  Order in a sequence of calls: \<open>all_before P Q cs\<close> says that from the position of a
  call satisfying \<open>Q\<close> on there is no call satisfying \<open>P\<close>, so that every \<open>P\<close> call comes
  strictly before every \<open>Q\<close> call.
\<close>

fun all_before :: "('a \<Rightarrow> bool) \<Rightarrow> ('a \<Rightarrow> bool) \<Rightarrow> 'a list \<Rightarrow> bool" where
  "all_before P Q [] = True"
| "all_before P Q (x # xs) =
     ((Q x \<longrightarrow> \<not> P x \<and> (\<forall>y \<in> set xs. \<not> P y)) \<and> all_before P Q xs)"

fun is_exchange_declaration :: "broker_call \<Rightarrow> bool" where
  "is_exchange_declaration (AssertExchange name kind durable autoDelete) = True"
| "is_exchange_declaration c = False"

fun is_queue_declaration :: "broker_call \<Rightarrow> bool" where
  "is_queue_declaration (AssertQueue name durable autoDelete dlx ttl) = True"
| "is_queue_declaration c = False"

fun is_binding :: "broker_call \<Rightarrow> bool" where
  "is_binding (BindExchange destination source key) = True"
| "is_binding (BindQueue q source key) = True"
| "is_binding c = False"

fun declares_exchange :: "string \<Rightarrow> broker_call \<Rightarrow> bool" where
  "declares_exchange x (AssertExchange name kind durable autoDelete) = (name = x)"
| "declares_exchange x c = False"

fun declares_queue :: "string \<Rightarrow> broker_call \<Rightarrow> bool" where
  "declares_queue q (AssertQueue name durable autoDelete dlx ttl) = (name = q)"
| "declares_queue q c = False"



text \<open>
  Modelled from the spec: the broker is outside the sources. A delivery of a publication
  carries the routing key and the body it was published with and, among its properties,
  the message identifier, the timestamp, the application identity and the parent header
  of the publication, in a headers table when the publication had one; the delivery tag
  and the dead-letter history are the broker's.
\<close>

fun delivery_of :: "broker_call \<Rightarrow> consume_message \<Rightarrow> bool" where
  "delivery_of (Publish target key body options) msg =
     (routingKey msg = key \<and> content msg = body \<and>
      messageId (properties msg) = messageId options \<and>
      timestamp (properties msg) = timestamp options \<and>
      appId (properties msg) = appId options \<and>
      (case (headers (properties msg), headers options) of
         (Some h, Some published) \<Rightarrow> parentMessage h = parentMessage published
       | (None, None) \<Rightarrow> True
       | _ \<Rightarrow> False))"
| "delivery_of c msg = False"

subsection \<open>Sample values\<close>

definition accepting :: env where
  "accepting = \<lparr>broker = (\<lambda>calls c. None), clock = (\<lambda>k. 1000 + int k)\<rparr>"

text \<open>A library whose channel is closed already: closing it raises.\<close>

definition channel_gone :: env where
  "channel_gone =
     \<lparr>broker = (\<lambda>calls c. if c = CloseChannel
                            then Some (IllegalOperationError ''Channel closed'')
                            else None),
      clock = (\<lambda>k. 1000 + int k)\<rparr>"

text \<open>A library that rejects every publication, as one whose channel has closed does.\<close>

definition publish_refusing :: env where
  "publish_refusing =
     \<lparr>broker = (\<lambda>calls c. case c of
                              Publish target key body options \<Rightarrow>
                                Some (IllegalOperationError ''Channel closed'')
                            | _ \<Rightarrow> None),
      clock = (\<lambda>k. 1000 + int k)\<rparr>"

text \<open>A library that rejects every call.\<close>

definition refusing :: env where
  "refusing = \<lparr>broker = (\<lambda>calls c. Some (BrokerError ''refused'')), clock = (\<lambda>k. 0)\<rparr>"

definition orders :: facade where
  "orders = RabbitMQConnectionFacade ''orders'' ''shop'' 30"

definition connected :: state where
  "connected =
     \<lparr>connection = True, channel = True, messagePool = Map.empty, trace = [],
      emitted = [], reads = 0\<rparr>"

definition delivery :: "string option \<Rightarrow> x_death_entry list option \<Rightarrow> consume_message" where
  "delivery mid history =
     \<lparr>content = ''{}'', routingKey = ''order.created'', deliveryTag = 1,
      properties =
        \<lparr>headers = Some \<lparr>x_death = history, parentMessage = Some ''p0''\<rparr>,
         messageId = mid, timestamp = Some 5, appId = Some ''shop''\<rparr>\<rparr>"

text \<open>A delivery of the application with an identifier and without a headers table.\<close>

definition bare_delivery :: consume_message where
  "bare_delivery =
     \<lparr>content = ''{}'', routingKey = ''order.created'', deliveryTag = 2,
      properties =
        \<lparr>headers = None, messageId = Some ''m2'', timestamp = Some 6,
         appId = Some ''shop''\<rparr>\<rparr>"

definition died :: "int \<Rightarrow> x_death_entry list option" where
  "died n = Some [\<lparr>count = n, reason = ''rejected''\<rparr>]"

definition tracking :: "consume_message \<Rightarrow> state" where
  "tracking m = connected\<lparr>messagePool := [''m1'' \<mapsto> m]\<rparr>"

definition invoice :: mercury_message where
  "invoice = JSONMessage ''invoice.issued'' ''{a}'' ''u1'' None (Some ''m1'')"

definition receipt :: mercury_message where
  "receipt = JSONMessage ''receipt.sent'' ''{b}'' ''u2'' None (Some ''m1'')"

text \<open>A delivery of the publication of \<open>invoice\<close> at the clock reading 1000.\<close>

definition invoice_delivery :: consume_message where
  "invoice_delivery =
     \<lparr>content = ''{a}'', routingKey = ''invoice.issued'', deliveryTag = 7,
      properties =
        \<lparr>headers = Some \<lparr>x_death = None, parentMessage = Some ''m1''\<rparr>,
         messageId = Some ''u1'', timestamp = Some 1000, appId = Some ''shop''\<rparr>\<rparr>"


subsection \<open>Calls, sequences and loops\<close>

lemma call_trace: "trace (snd (call e c s)) = trace s @ [c]"
  by (simp add: call_def split: option.splits)

lemma call_unchanged:
  "messagePool (snd (call e c s)) = messagePool s"
  "emitted (snd (call e c s)) = emitted s"
  "reads (snd (call e c s)) = reads s"
  "channel (snd (call e c s)) = channel s"
  "connection (snd (call e c s)) = connection s"
  by (simp_all add: call_def split: option.splits)

lemma call_accepted:
  "broker e (trace s) c = None \<Longrightarrow> call e c s = (Inr (), s\<lparr>trace := trace s @ [c]\<rparr>)"
  by (simp add: call_def)

lemma call_rejected:
  "broker e (trace s) c = Some err \<Longrightarrow> call e c s = (Inl err, s\<lparr>trace := trace s @ [c]\<rparr>)"
  by (simp add: call_def)

lemma call_returns:
  "fst (call e c s) = Inr () \<Longrightarrow> call e c s = (Inr (), s\<lparr>trace := trace s @ [c]\<rparr>)"
  by (simp add: call_def split: option.splits)

lemma channel_call_trace:
  "channel s \<Longrightarrow> trace (snd (channel_call e c s)) = trace s @ [c]"
  by (simp add: channel_call_def call_trace)

lemma channel_call_unchanged:
  "messagePool (snd (channel_call e c s)) = messagePool s"
  "emitted (snd (channel_call e c s)) = emitted s"
  "reads (snd (channel_call e c s)) = reads s"
  "channel (snd (channel_call e c s)) = channel s"
  "connection (snd (channel_call e c s)) = connection s"
  by (simp_all add: channel_call_def call_unchanged)

lemma channel_call_returns:
  "fst (channel_call e c s) = Inr () \<Longrightarrow>
   channel s \<and> channel_call e c s = (Inr (), s\<lparr>trace := trace s @ [c]\<rparr>)"
  by (simp add: channel_call_def call_returns split: if_splits)

lemma channel_call_accepted:
  "channel s \<Longrightarrow> accepts_all e \<Longrightarrow>
   channel_call e c s = (Inr (), s\<lparr>trace := trace s @ [c]\<rparr>)"
  by (simp add: channel_call_def call_accepted accepts_all_def)

lemma accepts_all_accepting: "accepts_all accepting"
  by (simp add: accepts_all_def accepting_def)

subsection \<open>Products of numbers\<close>





text \<open>A sequence of calls on the channel that returns has made all of them.\<close>

lemma calls_return:
  "fst (for_each (channel_call e) cs s) = Inr () \<Longrightarrow>
   snd (for_each (channel_call e) cs s) = s\<lparr>trace := trace s @ cs\<rparr>"
proof (induction cs arbitrary: s)
  case Nil
  then show ?case by simp
next
  case (Cons c cs)
  from Cons.prems have c: "fst (channel_call e c s) = Inr ()"
    by (auto split: prod.splits sum.splits)
  note step = channel_call_returns [OF c]
  from Cons.prems step
  have rest: "fst (for_each (channel_call e) cs (s\<lparr>trace := trace s @ [c]\<rparr>)) = Inr ()"
    by simp
  show ?case
    using Cons.IH [OF rest] step by simp
qed

lemma calls_accepted:
  "channel s \<Longrightarrow> accepts_all e \<Longrightarrow> fst (for_each (channel_call e) cs s) = Inr ()"
proof (induction cs arbitrary: s)
  case Nil
  then show ?case by simp
next
  case (Cons c cs)
  have "channel (s\<lparr>trace := trace s @ [c]\<rparr>)"
    using Cons.prems(1) by simp
  from Cons.IH [OF this Cons.prems(2)] show ?case
    using Cons.prems by (simp add: channel_call_accepted)
qed

text \<open>Whatever the library answers, the calls made are a prefix of the sequence.\<close>

lemma calls_prefix:
  "\<exists>k \<le> length cs. snd (for_each (channel_call e) cs s) = s\<lparr>trace := trace s @ take k cs\<rparr>"
proof (induction cs arbitrary: s)
  case Nil
  then show ?case by simp
next
  case (Cons c cs)
  show ?case
  proof (cases "channel s")
    case False
    then have "snd (for_each (channel_call e) (c # cs) s) = s\<lparr>trace := trace s @ take 0 (c # cs)\<rparr>"
      by (simp add: channel_call_def)
    then show ?thesis by blast
  next
    case True
    let ?s1 = "s\<lparr>trace := trace s @ [c]\<rparr>"
    show ?thesis
    proof (cases "broker e (trace s) c")
      case None
      with True have step: "channel_call e c s = (Inr (), ?s1)"
        by (simp add: channel_call_def call_accepted)
      from Cons.IH [of ?s1] obtain k where
        k: "k \<le> length cs"
          "snd (for_each (channel_call e) cs ?s1) = ?s1\<lparr>trace := trace ?s1 @ take k cs\<rparr>"
        by blast
      then have "snd (for_each (channel_call e) (c # cs) s) =
                   s\<lparr>trace := trace s @ take (Suc k) (c # cs)\<rparr>"
        using step by simp
      moreover have "Suc k \<le> length (c # cs)"
        using k(1) by simp
      ultimately show ?thesis by blast
    next
      case (Some err)
      with True have "channel_call e c s = (Inl err, ?s1)"
        by (simp add: channel_call_def call_rejected)
      then have "snd (for_each (channel_call e) (c # cs) s) =
                   s\<lparr>trace := trace s @ take 1 (c # cs)\<rparr>"
        by simp
      moreover have "1 \<le> length (c # cs)"
        by simp
      ultimately show ?thesis by blast
    qed
  qed
qed

text \<open>The loop of \<^verbatim>\<open>subscribeAll\<close> is a sequence of bindings.\<close>

lemma subscribe_each:
  "for_each (subscribe e f) ds s =
   for_each (channel_call e) (map (BindQueue (queue f) (exchange f)) ds) s"
  by (induction ds arbitrary: s) (simp_all add: subscribe_def split: prod.splits sum.splits)

text \<open>What \<open>all_before\<close> says, in positions.\<close>

lemma all_before_positions:
  "all_before P Q xs \<longleftrightarrow>
   (\<forall>i < length xs. \<forall>j < length xs. P (xs ! i) \<and> Q (xs ! j) \<longrightarrow> i < j)"
proof (induction xs)
  case Nil
  then show ?case by simp
next
  case (Cons x xs)
  show ?case
    by (auto simp: Cons.IH All_less_Suc2 all_set_conv_all_nth)
qed

subsection \<open>Publishing one message and many\<close>

lemma publish_returns:
  "fst (publish e f message None s) = Inr () \<Longrightarrow>
   publish e f message None s =
     (Inr (), s\<lparr>trace := trace s @ [publication e f (reads s) message],
               reads := Suc (reads s)\<rparr>)"
  by (auto simp: publish_def publication_def call_def split: if_splits option.splits)

lemma publish_accepted:
  "channel s \<Longrightarrow> accepts_all e \<Longrightarrow> fst (publish e f message None s) = Inr ()"
  by (simp add: publish_def call_def accepts_all_def)

lemma publish_channel: "channel (snd (publish e f message alt s)) = channel s"
  by (simp add: publish_def Let_def call_unchanged)

lemma publish_each_returns:
  "fst (for_each (\<lambda>message. publish e f message None) ms s) = Inr () \<Longrightarrow>
   snd (for_each (\<lambda>message. publish e f message None) ms s) =
     s\<lparr>trace := trace s @ map (\<lambda>(k, r). publication e f k r) (enumerate (reads s) ms),
       reads := reads s + length ms\<rparr>"
proof (induction ms arbitrary: s)
  case Nil
  then show ?case by simp
next
  case (Cons a ms)
  from Cons.prems have a: "fst (publish e f a None s) = Inr ()"
    by (auto split: prod.splits sum.splits)
  note step = publish_returns [OF a]
  from Cons.prems step
  have rest: "fst (for_each (\<lambda>message. publish e f message None) ms
                (s\<lparr>trace := trace s @ [publication e f (reads s) a], reads := Suc (reads s)\<rparr>)) = Inr ()"
    by simp
  show ?case
    using Cons.IH [OF rest] step by simp
qed

lemma publish_each_accepted:
  "channel s \<Longrightarrow> accepts_all e \<Longrightarrow>
   fst (for_each (\<lambda>message. publish e f message None) ms s) = Inr ()"
proof (induction ms arbitrary: s)
  case Nil
  then show ?case by simp
next
  case (Cons a ms)
  have a: "fst (publish e f a None s) = Inr ()"
    using Cons.prems by (rule publish_accepted)
  have c: "channel (snd (publish e f a None s))"
    using Cons.prems(1) by (simp add: publish_channel)
  show ?case
    using a Cons.IH [OF c Cons.prems(2)]
    by (auto split: prod.splits sum.splits)
qed

lemma publish_all_returns:
  "fst (publish_all e f resulting s) = Inr () \<Longrightarrow>
   snd (publish_all e f resulting s) =
     s\<lparr>trace := trace s @ map (\<lambda>(k, r). publication e f k r)
                            (enumerate (reads s) (messages_of resulting)),
       reads := reads s + length (messages_of resulting)\<rparr>"
  by (cases resulting) (simp_all add: publish_all_def messages_of_def publish_each_returns)

lemma publish_all_accepted:
  "channel s \<Longrightarrow> accepts_all e \<Longrightarrow> fst (publish_all e f resulting s) = Inr ()"
  by (cases resulting) (simp_all add: publish_all_def publish_each_accepted)

section \<open>The outcome resolver\<close>

text \<open>
  Claim C1, as amended. On an error outcome for a delivery that the table tracks (the
  facade holding its channel, the delivery having a headers table \<open>h\<close>, the history in it
  absent or with at least one entry), the limit is
  \<^verbatim>\<open>maxRetries\<close> when given and not zero, and 60 otherwise. Without a history the
  resolver nacks without requeue, whatever the limit. With a history it nacks without
  requeue when the count of the first entry is below the limit and acks when that count is
  the limit or more. Whenever the limit is positive this is the decision the specification
  words, with count 0 for no history; with the default limit the counts up to 59 give a
  nack and the count 60 an ack. The delivery leaves the table.
\<close>

theorem error_outcome_resolution:
  assumes "messagePool s mid = Some m" and "channel s"
    and "headers (properties m) = Some h" and "x_death h \<noteq> Some []"
  shows "retry_limit maxRetries =
           (case maxRetries of None \<Rightarrow> 60 | Some n \<Rightarrow> if n = 0 then 60 else n)
       \<and> (x_death h = None \<longrightarrow>
           trace (snd (on_process_error e mid maxRetries s)) =
             trace s @ [Nack (Some m) False False])
       \<and> (x_death h \<noteq> None \<longrightarrow>
           trace (snd (on_process_error e mid maxRetries s)) =
             trace s @ [if death_count m < retry_limit maxRetries
                        then Nack (Some m) False False else Ack (Some m)])
       \<and> (0 < retry_limit maxRetries \<longrightarrow>
           trace (snd (on_process_error e mid maxRetries s)) =
             trace s @ [specified_resolution m maxRetries])
       \<and> (maxRetries = None \<longrightarrow>
           trace (snd (on_process_error e mid maxRetries s)) =
             trace s @ [if death_count m < 60
                        then Nack (Some m) False False else Ack (Some m)])
       \<and> messagePool (snd (on_process_error e mid maxRetries s)) mid = None"
  using assms
  by (auto simp: on_process_error_def Let_def channel_call_trace channel_call_unchanged
      specified_resolution_def death_count_def retry_limit_def
      split: option.splits list.splits)

text \<open>
  The theorem at three tracked deliveries under the default limit: one that died 59
  times is nacked, one that died 60 times is acked, one without history is nacked.
\<close>

theorem error_outcome_resolution_witness:
  "messagePool (tracking (delivery (Some ''m1'') (died 59))) ''m1'' =
     Some (delivery (Some ''m1'') (died 59))
   \<and> channel (tracking (delivery (Some ''m1'') (died 59)))
   \<and> headers (properties (delivery (Some ''m1'') (died 59))) =
       Some \<lparr>x_death = died 59, parentMessage = Some ''p0''\<rparr>
   \<and> x_death \<lparr>x_death = died 59, parentMessage = Some ''p0''\<rparr> \<noteq> Some []
   \<and> trace (snd (on_process_error accepting ''m1'' None
                   (tracking (delivery (Some ''m1'') (died 59))))) =
       [Nack (Some (delivery (Some ''m1'') (died 59))) False False]
   \<and> trace (snd (on_process_error accepting ''m1'' None
                   (tracking (delivery (Some ''m1'') (died 60))))) =
       [Ack (Some (delivery (Some ''m1'') (died 60)))]
   \<and> trace (snd (on_process_error accepting ''m1'' None
                   (tracking (delivery (Some ''m1'') None)))) =
       [Nack (Some (delivery (Some ''m1'') None)) False False]"
  using error_outcome_resolution [of "tracking (delivery (Some ''m1'') (died 59))" "''m1''"
      "delivery (Some ''m1'') (died 59)" "\<lparr>x_death = died 59, parentMessage = Some ''p0''\<rparr>"
      None accepting]
    error_outcome_resolution [of "tracking (delivery (Some ''m1'') (died 60))" "''m1''"
      "delivery (Some ''m1'') (died 60)" "\<lparr>x_death = died 60, parentMessage = Some ''p0''\<rparr>"
      None accepting]
    error_outcome_resolution [of "tracking (delivery (Some ''m1'') None)" "''m1''"
      "delivery (Some ''m1'') None" "\<lparr>x_death = None, parentMessage = Some ''p0''\<rparr>"
      None accepting]
  by (simp add: tracking_def connected_def delivery_def died_def death_count_def)

text \<open>
  Claim C1 as it is worded fails for a limit that is not positive: with
  \<^verbatim>\<open>maxRetries = -1\<close> and a tracked delivery without history the count is 0 and the
  limit \<open>-1\<close>, so the wording asks for an ack, and the resolver nacks.
\<close>

theorem error_outcome_negative_limit_counterexample:
  "messagePool (tracking (delivery (Some ''m1'') None)) ''m1'' =
     Some (delivery (Some ''m1'') None)
   \<and> death_count (delivery (Some ''m1'') None) = 0
   \<and> retry_limit (Some (- 1)) = - 1
   \<and> specified_resolution (delivery (Some ''m1'') None) (Some (- 1)) =
       Ack (Some (delivery (Some ''m1'') None))
   \<and> on_process_error accepting ''m1'' (Some (- 1)) (tracking (delivery (Some ''m1'') None)) =
       (Inr (), connected\<lparr>trace := [Nack (Some (delivery (Some ''m1'') None)) False False]\<rparr>)"
  by (simp add: tracking_def connected_def delivery_def death_count_def retry_limit_def
      specified_resolution_def on_process_error_def channel_call_def call_def accepting_def)


text \<open>
  The listener of a success outcome, when it returns: it has acked what the table holds
  for the identifier, published every resulting message in order, each with its own
  reading of the clock, and removed the identifier from the table. With a library that
  accepts every call it returns.
\<close>

lemma on_process_success_returns:
  assumes "fst (on_process_success e f mid resulting s) = Inr ()"
  shows "snd (on_process_success e f mid resulting s) =
     s\<lparr>messagePool := (messagePool s)(mid := None),
       trace := trace s @ Ack (messagePool s mid)
                  # map (\<lambda>(k, r). publication e f k r)
                      (enumerate (reads s) (messages_of resulting)),
       reads := reads s + length (messages_of resulting)\<rparr>"
proof -
  let ?s1 = "s\<lparr>trace := trace s @ [Ack (messagePool s mid)]\<rparr>"
  from assms have a: "fst (channel_call e (Ack (messagePool s mid)) s) = Inr ()"
    by (auto simp: on_process_success_def bind_io_def split: prod.splits sum.splits)
  note ack = channel_call_returns [OF a]
  from assms ack have p: "fst (publish_all e f resulting ?s1) = Inr ()"
    by (auto simp: on_process_success_def bind_io_def split: prod.splits sum.splits)
  note pub = publish_all_returns [OF p]
  have "on_process_success e f mid resulting s =
          (Inr (), (snd (publish_all e f resulting ?s1))
                     \<lparr>messagePool := (messagePool (snd (publish_all e f resulting ?s1)))(mid := None)\<rparr>)"
    using ack p by (auto simp: on_process_success_def bind_io_def split: prod.splits sum.splits)
  then show ?thesis
    by (simp add: pub)
qed

lemma on_process_success_accepted:
  assumes "channel s" and "accepts_all e"
  shows "fst (on_process_success e f mid resulting s) = Inr ()"
proof -
  let ?s1 = "s\<lparr>trace := trace s @ [Ack (messagePool s mid)]\<rparr>"
  have ack: "channel_call e (Ack (messagePool s mid)) s = (Inr (), ?s1)"
    using assms by (rule channel_call_accepted)
  have "fst (publish_all e f resulting ?s1) = Inr ()"
    using assms by (simp add: publish_all_accepted)
  then show ?thesis
    using ack by (auto simp: on_process_success_def bind_io_def split: prod.splits sum.splits)
qed

text \<open>
  On every path the calls of the listener are the ack and then the publications of a prefix
  of the resulting messages, in order; and when it raises, the table is as it was, since the
  removal is its last step.
\<close>

lemma publish_unchanged: "messagePool (snd (publish e f message alt s)) = messagePool s"
  by (simp add: publish_def Let_def call_unchanged)

lemma publish_steps:
  "publish e f message None s = (Inl TypeError, s) \<and> \<not> channel s
   \<or> snd (publish e f message None s) =
        s\<lparr>trace := trace s @ [publication e f (reads s) message], reads := Suc (reads s)\<rparr>"
  by (auto simp: publish_def publication_def call_def split: option.splits)

lemma publish_each_prefix:
  "\<exists>k \<le> length ms.
     snd (for_each (\<lambda>message. publish e f message None) ms s) =
       s\<lparr>trace := trace s @ map (\<lambda>(k, r). publication e f k r) (enumerate (reads s) (take k ms)),
         reads := reads s + k\<rparr>"
proof (induction ms arbitrary: s)
  case Nil
  then show ?case by simp
next
  case (Cons a ms)
  let ?loop = "for_each (\<lambda>message. publish e f message None)"
  let ?s1 = "s\<lparr>trace := trace s @ [publication e f (reads s) a], reads := Suc (reads s)\<rparr>"
  show ?case
  proof (cases "fst (publish e f a None s)")
    case (Inr u)
    then have "fst (publish e f a None s) = Inr ()" by simp
    then have step: "publish e f a None s = (Inr (), ?s1)"
      by (rule publish_returns)
    from Cons.IH [of ?s1] obtain k where
      k: "k \<le> length ms"
        "snd (?loop ms ?s1) =
           ?s1\<lparr>trace := trace ?s1 @ map (\<lambda>(k, r). publication e f k r)
                                       (enumerate (reads ?s1) (take k ms)),
               reads := reads ?s1 + k\<rparr>"
      by blast
    have "snd (?loop (a # ms) s) =
            s\<lparr>trace := trace s @ map (\<lambda>(k, r). publication e f k r)
                                     (enumerate (reads s) (take (Suc k) (a # ms))),
              reads := reads s + Suc k\<rparr>"
      using step k(2) by simp
    moreover have "Suc k \<le> length (a # ms)"
      using k(1) by simp
    ultimately show ?thesis by blast
  next
    case (Inl err)
    then have stop: "?loop (a # ms) s = (Inl err, snd (publish e f a None s))"
      by (cases "publish e f a None s") simp
    from publish_steps [of e f a s] show ?thesis
    proof
      assume "publish e f a None s = (Inl TypeError, s) \<and> \<not> channel s"
      then have "snd (?loop (a # ms) s) =
            s\<lparr>trace := trace s @ map (\<lambda>(k, r). publication e f k r)
                                     (enumerate (reads s) (take 0 (a # ms))),
              reads := reads s + 0\<rparr>"
        using stop by simp
      then show ?thesis by blast
    next
      assume "snd (publish e f a None s) = ?s1"
      then have "snd (?loop (a # ms) s) =
            s\<lparr>trace := trace s @ map (\<lambda>(k, r). publication e f k r)
                                     (enumerate (reads s) (take 1 (a # ms))),
              reads := reads s + 1\<rparr>"
        using stop by simp
      moreover have "1 \<le> length (a # ms)" by simp
      ultimately show ?thesis by blast
    qed
  qed
qed

lemma publish_all_prefix:
  "\<exists>k \<le> length (messages_of resulting).
     snd (publish_all e f resulting s) =
       s\<lparr>trace := trace s @ map (\<lambda>(k, r). publication e f k r)
                              (enumerate (reads s) (take k (messages_of resulting))),
         reads := reads s + k\<rparr>"
proof (cases resulting)
  case None
  then show ?thesis by (simp add: publish_all_def messages_of_def)
next
  case (Some ms)
  then show ?thesis
    using publish_each_prefix [of ms e f s] by (simp add: publish_all_def messages_of_def)
qed

lemma on_process_success_prefix:
  assumes "channel s"
  shows "\<exists>k \<le> length (messages_of resulting).
     trace (snd (on_process_success e f mid resulting s)) =
       trace s @ Ack (messagePool s mid)
         # map (\<lambda>(k, r). publication e f k r)
             (enumerate (reads s) (take k (messages_of resulting)))"
proof -
  let ?s1 = "s\<lparr>trace := trace s @ [Ack (messagePool s mid)]\<rparr>"
  show ?thesis
  proof (cases "broker e (trace s) (Ack (messagePool s mid))")
    case (Some err)
    then have "on_process_success e f mid resulting s = (Inl err, ?s1)"
      using assms by (simp add: on_process_success_def bind_io_def channel_call_def call_rejected)
    then have "trace (snd (on_process_success e f mid resulting s)) =
       trace s @ Ack (messagePool s mid)
         # map (\<lambda>(k, r). publication e f k r)
             (enumerate (reads s) (take 0 (messages_of resulting)))"
      by simp
    then show ?thesis by blast
  next
    case None
    then have ack: "channel_call e (Ack (messagePool s mid)) s = (Inr (), ?s1)"
      using assms by (simp add: channel_call_def call_accepted)
    from publish_all_prefix [of resulting e f ?s1] obtain k where
      k: "k \<le> length (messages_of resulting)"
        "snd (publish_all e f resulting ?s1) =
           ?s1\<lparr>trace := trace ?s1 @ map (\<lambda>(k, r). publication e f k r)
                                       (enumerate (reads ?s1) (take k (messages_of resulting))),
               reads := reads ?s1 + k\<rparr>"
      by blast
    have "trace (snd (on_process_success e f mid resulting s)) =
            trace (snd (publish_all e f resulting ?s1))"
      using ack
      by (cases "publish_all e f resulting ?s1"; cases "fst (publish_all e f resulting ?s1)")
        (auto simp: on_process_success_def bind_io_def)
    with k(2) have "trace (snd (on_process_success e f mid resulting s)) =
       trace s @ Ack (messagePool s mid)
         # map (\<lambda>(k, r). publication e f k r)
             (enumerate (reads s) (take k (messages_of resulting)))"
      by simp
    with k(1) show ?thesis by blast
  qed
qed

lemma on_process_success_raises:
  assumes "fst (on_process_success e f mid resulting s) = Inl err"
  shows "messagePool (snd (on_process_success e f mid resulting s)) = messagePool s"
proof (cases "channel_call e (Ack (messagePool s mid)) s")
  case (Pair r s1)
  then have s1: "messagePool s1 = messagePool s"
    using channel_call_unchanged(1) [of e "Ack (messagePool s mid)" s] by simp
  show ?thesis
  proof (cases r)
    case (Inl a)
    with Pair s1 show ?thesis
      by (simp add: on_process_success_def bind_io_def)
  next
    case (Inr u)
    from publish_all_prefix [of resulting e f s1] obtain k where
      "snd (publish_all e f resulting s1) =
           s1\<lparr>trace := trace s1 @ map (\<lambda>(k, r). publication e f k r)
                                       (enumerate (reads s1) (take k (messages_of resulting))),
               reads := reads s1 + k\<rparr>"
      by blast
    then have pool: "messagePool (snd (publish_all e f resulting s1)) = messagePool s"
      using s1 by simp
    show ?thesis
    proof (cases "publish_all e f resulting s1")
      case inner: (Pair r2 s2)
      with assms Pair Inr obtain a where "r2 = Inl a"
        by (cases r2) (auto simp: on_process_success_def bind_io_def)
      with inner Pair Inr pool show ?thesis
        by (simp add: on_process_success_def bind_io_def)
    qed
  qed
qed

text \<open>
  Claim C4, as amended. On a success outcome for a delivery that the table tracks, on a
  facade holding its channel, the resolver first acks the tracked delivery, then publishes
  the resulting messages one by one in order, the \<open>k\<close>-th stamped with the \<open>k\<close>-th new
  reading of the clock and with the application identity of the facade, and last removes
  the identifier from the table. So on every path the calls made are one ack followed by
  one publication for each message of a prefix of the resulting messages. With a library
  that accepts every call the listener returns; whenever it returns, the prefix is all the
  resulting messages and the table no longer holds the identifier; whenever it raises,
  because the ack or a publication did, the table is as it was and still holds the
  delivery.
\<close>

theorem success_outcome:
  assumes "messagePool s mid = Some m" and "channel s"
  shows "(accepts_all e \<longrightarrow> fst (on_process_success e f mid resulting s) = Inr ())
       \<and> (fst (on_process_success e f mid resulting s) = Inr () \<longrightarrow>
            snd (on_process_success e f mid resulting s) =
              s\<lparr>messagePool := (messagePool s)(mid := None),
                trace := trace s @ Ack (Some m)
                           # map (\<lambda>(k, r). publication e f k r)
                               (enumerate (reads s) (messages_of resulting)),
                reads := reads s + length (messages_of resulting)\<rparr>
          \<and> messagePool (snd (on_process_success e f mid resulting s)) mid = None)
       \<and> (\<exists>k \<le> length (messages_of resulting).
            trace (snd (on_process_success e f mid resulting s)) =
              trace s @ Ack (Some m)
                # map (\<lambda>(k, r). publication e f k r)
                    (enumerate (reads s) (take k (messages_of resulting))))
       \<and> (fst (on_process_success e f mid resulting s) \<noteq> Inr () \<longrightarrow>
            messagePool (snd (on_process_success e f mid resulting s)) = messagePool s
          \<and> messagePool (snd (on_process_success e f mid resulting s)) mid = Some m)"
proof (intro conjI impI)
  assume "accepts_all e"
  with assms(2) show "fst (on_process_success e f mid resulting s) = Inr ()"
    by (rule on_process_success_accepted)
next
  assume r: "fst (on_process_success e f mid resulting s) = Inr ()"
  show "snd (on_process_success e f mid resulting s) =
              s\<lparr>messagePool := (messagePool s)(mid := None),
                trace := trace s @ Ack (Some m)
                           # map (\<lambda>(k, r). publication e f k r)
                               (enumerate (reads s) (messages_of resulting)),
                reads := reads s + length (messages_of resulting)\<rparr>"
    using on_process_success_returns [OF r] assms(1) by simp
  then show "messagePool (snd (on_process_success e f mid resulting s)) mid = None"
    by simp
next
  show "\<exists>k \<le> length (messages_of resulting).
            trace (snd (on_process_success e f mid resulting s)) =
              trace s @ Ack (Some m)
                # map (\<lambda>(k, r). publication e f k r)
                    (enumerate (reads s) (take k (messages_of resulting)))"
    using on_process_success_prefix [OF assms(2), of resulting e f mid] assms(1) by simp
next
  assume "fst (on_process_success e f mid resulting s) \<noteq> Inr ()"
  then obtain err where "fst (on_process_success e f mid resulting s) = Inl err"
    by (cases "fst (on_process_success e f mid resulting s)") auto
  then show pool: "messagePool (snd (on_process_success e f mid resulting s)) = messagePool s"
    by (rule on_process_success_raises)
  show "messagePool (snd (on_process_success e f mid resulting s)) mid = Some m"
    using pool assms(1) by simp
qed

text \<open>
  The theorem at a success outcome with two resulting messages: one ack, exactly two
  publications, stamped with the clock readings 1000 and 1001 and with the application
  identity \<^verbatim>\<open>shop\<close>.
\<close>

theorem success_outcome_witness:
  "messagePool (tracking (delivery (Some ''m1'') None)) ''m1'' = Some (delivery (Some ''m1'') None)
   \<and> channel (tracking (delivery (Some ''m1'') None))
   \<and> accepts_all accepting
   \<and> on_process_success accepting orders ''m1'' (Some [invoice, receipt])
        (tracking (delivery (Some ''m1'') None)) =
       (Inr (), connected
          \<lparr>trace := [Ack (Some (delivery (Some ''m1'') None)),
                     publication accepting orders 0 invoice,
                     publication accepting orders 1 receipt],
            reads := 2\<rparr>)
   \<and> publication accepting orders 0 invoice =
       Publish ''mercury_bus'' ''invoice.issued'' ''{a}''
         \<lparr>headers = Some \<lparr>x_death = None, parentMessage = Some ''m1''\<rparr>, messageId = Some ''u1'',
          timestamp = Some 1000, appId = Some ''shop'', persistent = True\<rparr>
   \<and> publication accepting orders 1 receipt =
       Publish ''mercury_bus'' ''receipt.sent'' ''{b}''
         \<lparr>headers = Some \<lparr>x_death = None, parentMessage = Some ''m1''\<rparr>, messageId = Some ''u2'',
          timestamp = Some 1001, appId = Some ''shop'', persistent = True\<rparr>"
proof -
  let ?s = "tracking (delivery (Some ''m1'') None)"
  have pool: "messagePool ?s ''m1'' = Some (delivery (Some ''m1'') None)"
    and chan: "channel ?s"
    by (simp_all add: tracking_def connected_def)
  note main = success_outcome [OF pool chan, of accepting orders "Some [invoice, receipt]"]
  from main accepts_all_accepting
  have r: "fst (on_process_success accepting orders ''m1'' (Some [invoice, receipt]) ?s) = Inr ()"
    by blast
  with main have "snd (on_process_success accepting orders ''m1'' (Some [invoice, receipt]) ?s) =
      ?s\<lparr>messagePool := (messagePool ?s)(''m1'' := None),
         trace := trace ?s @ Ack (Some (delivery (Some ''m1'') None))
                    # map (\<lambda>(k, r). publication accepting orders k r)
                        (enumerate (reads ?s) (messages_of (Some [invoice, receipt]))),
         reads := reads ?s + length (messages_of (Some [invoice, receipt]))\<rparr>"
    by blast
  then have "snd (on_process_success accepting orders ''m1'' (Some [invoice, receipt]) ?s) =
      connected
          \<lparr>trace := [Ack (Some (delivery (Some ''m1'') None)),
                     publication accepting orders 0 invoice,
                     publication accepting orders 1 receipt],
            reads := 2\<rparr>"
    by (simp add: tracking_def connected_def messages_of_def)
  with r have "on_process_success accepting orders ''m1'' (Some [invoice, receipt]) ?s =
       (Inr (), connected
          \<lparr>trace := [Ack (Some (delivery (Some ''m1'') None)),
                     publication accepting orders 0 invoice,
                     publication accepting orders 1 receipt],
            reads := 2\<rparr>)"
    by (simp add: prod_eq_iff)
  moreover have "publication accepting orders 0 invoice =
       Publish ''mercury_bus'' ''invoice.issued'' ''{a}''
         \<lparr>headers = Some \<lparr>x_death = None, parentMessage = Some ''m1''\<rparr>, messageId = Some ''u1'',
          timestamp = Some 1000, appId = Some ''shop'', persistent = True\<rparr>"
    by (simp add: publication_def accepting_def orders_def invoice_def JSONMessage_def
        RabbitMQConnectionFacade_def main_bus_def)
  moreover have "publication accepting orders 1 receipt =
       Publish ''mercury_bus'' ''receipt.sent'' ''{b}''
         \<lparr>headers = Some \<lparr>x_death = None, parentMessage = Some ''m1''\<rparr>, messageId = Some ''u2'',
          timestamp = Some 1001, appId = Some ''shop'', persistent = True\<rparr>"
    by (simp add: publication_def accepting_def orders_def receipt_def JSONMessage_def
        RabbitMQConnectionFacade_def main_bus_def)
  ultimately show ?thesis
    using pool chan accepts_all_accepting by blast
qed

text \<open>
  Claim C4 as it is worded fails when a call raises: with a library whose channel has
  closed, the first of two publications raises, the second is never made, and the
  delivery is still in the table.
\<close>

theorem success_outcome_publish_raises_counterexample:
  "messagePool (tracking (delivery (Some ''m1'') None)) ''m1'' =
     Some (delivery (Some ''m1'') None)
   \<and> on_process_success publish_refusing orders ''m1'' (Some [invoice, receipt])
        (tracking (delivery (Some ''m1'') None)) =
       (Inl (IllegalOperationError ''Channel closed''),
        tracking (delivery (Some ''m1'') None)
          \<lparr>trace := [Ack (Some (delivery (Some ''m1'') None)),
                     publication publish_refusing orders 0 invoice],
            reads := 1\<rparr>)
   \<and> messagePool
        (snd (on_process_success publish_refusing orders ''m1'' (Some [invoice, receipt])
               (tracking (delivery (Some ''m1'') None)))) ''m1'' =
       Some (delivery (Some ''m1'') None)"
  by (simp add: on_process_success_def bind_io_def publish_all_def publish_def publication_def
      channel_call_def call_def publish_refusing_def tracking_def connected_def)

text \<open>
  Claim C2, as amended. The resolver has no guard for an identifier that the table does
  not hold. On an error outcome for such an identifier it makes no call on the library,
  leaves the state as it is and raises a \<open>TypeError\<close> to the caller of the emitter. On a
  success outcome for such an identifier it calls \<^verbatim>\<open>channel.ack\<close> with
  \<^verbatim>\<open>undefined\<close>: an error the library raises for that call reaches the caller, and
  when the listener returns it has published the resulting messages after that ack; the
  table is unchanged. Without a channel the success listener raises a \<open>TypeError\<close> too.
\<close>

theorem unknown_delivery_outcome:
  assumes "messagePool s mid = None"
  shows "on_process_error e mid maxRetries s = (Inl TypeError, s)
       \<and> (\<not> channel s \<longrightarrow> on_process_success e f mid resulting s = (Inl TypeError, s))
       \<and> (channel s \<and> broker e (trace s) (Ack None) = Some err \<longrightarrow>
            on_process_success e f mid resulting s =
              (Inl err, s\<lparr>trace := trace s @ [Ack None]\<rparr>))
       \<and> (fst (on_process_success e f mid resulting s) = Inr () \<longrightarrow>
            snd (on_process_success e f mid resulting s) =
              s\<lparr>trace := trace s @ Ack None
                           # map (\<lambda>(k, r). publication e f k r)
                               (enumerate (reads s) (messages_of resulting)),
                reads := reads s + length (messages_of resulting)\<rparr>)"
proof (intro conjI impI)
  have "(messagePool s)(mid := None) = messagePool s"
    using assms by (simp add: fun_upd_idem)
  then show "on_process_error e mid maxRetries s = (Inl TypeError, s)"
    using assms by (simp add: on_process_error_def)
next
  assume "\<not> channel s"
  then show "on_process_success e f mid resulting s = (Inl TypeError, s)"
    by (simp add: on_process_success_def bind_io_def channel_call_def)
next
  assume "channel s \<and> broker e (trace s) (Ack None) = Some err"
  then show "on_process_success e f mid resulting s =
              (Inl err, s\<lparr>trace := trace s @ [Ack None]\<rparr>)"
    using assms by (simp add: on_process_success_def bind_io_def channel_call_def call_rejected)
next
  assume r: "fst (on_process_success e f mid resulting s) = Inr ()"
  have "(messagePool s)(mid := None) = messagePool s"
    using assms by (simp add: fun_upd_idem)
  then show "snd (on_process_success e f mid resulting s) =
              s\<lparr>trace := trace s @ Ack None
                           # map (\<lambda>(k, r). publication e f k r)
                               (enumerate (reads s) (messages_of resulting)),
                reads := reads s + length (messages_of resulting)\<rparr>"
    using on_process_success_returns [OF r] assms by simp
qed

text \<open>The theorem at an identifier that an empty table does not hold.\<close>

theorem unknown_delivery_outcome_witness:
  "messagePool connected ''ghost'' = None
   \<and> on_process_error accepting ''ghost'' None connected = (Inl TypeError, connected)
   \<and> on_process_success refusing orders ''ghost'' None connected =
       (Inl (BrokerError ''refused''), connected\<lparr>trace := [Ack None]\<rparr>)
   \<and> snd (on_process_success accepting orders ''ghost'' (Some [invoice]) connected) =
       connected\<lparr>trace := [Ack None, publication accepting orders 0 invoice], reads := 1\<rparr>"
proof -
  have pool: "messagePool connected ''ghost'' = None"
    by (simp add: connected_def)
  have ok: "fst (on_process_success accepting orders ''ghost'' (Some [invoice]) connected) = Inr ()"
    by (rule on_process_success_accepted) (simp_all add: connected_def accepts_all_accepting)
  show ?thesis
    using pool ok
      unknown_delivery_outcome [OF pool,
        where e = accepting and f = orders and resulting = "Some [invoice]" and maxRetries = None]
      unknown_delivery_outcome [OF pool,
        where e = refusing and f = orders and resulting = None
          and err = "BrokerError ''refused''"]
    by (simp add: connected_def refusing_def messages_of_def)
qed

text \<open>
  Claim C2 as it is worded fails: for an identifier the table does not hold, the error
  listener throws, and the success listener acknowledges, with no delivery.
\<close>

theorem unknown_delivery_counterexample:
  "messagePool connected ''ghost'' = None
   \<and> on_process_error accepting ''ghost'' None connected = (Inl TypeError, connected)
   \<and> on_process_success accepting orders ''ghost'' None connected =
       (Inr (), connected\<lparr>trace := [Ack None]\<rparr>)"
  by (simp add: connected_def on_process_error_def on_process_success_def bind_io_def
      publish_all_def channel_call_def call_def accepting_def)

section \<open>The inbound dispatcher\<close>

text \<open>
  Claim C3, as amended. On a facade holding its channel, a raw delivery whose application
  tag is not the application identity of the facade, or whose message identifier is
  missing or the empty string (which JavaScript takes for no identifier), is acked at once:
  the ack is the one call made, and the table and the emitter are left as they are. A
  delivery with the facade's application tag, a non-empty identifier and a headers table
  is stored in the table under that identifier, handed to the emitter under its routing
  key as a message built from routing key, body, identifier, timestamp and parent header,
  and no call is made on the library.
\<close>

theorem inbound_dispatch:
  assumes "channel s"
  shows "(appId (properties msg) \<noteq> Some (appName f) \<or>
          \<not> truthy_string (messageId (properties msg)) \<longrightarrow>
            trace (snd (on_message e f msg s)) = trace s @ [Ack (Some msg)]
          \<and> messagePool (snd (on_message e f msg s)) = messagePool s
          \<and> emitted (snd (on_message e f msg s)) = emitted s)
       \<and> (appId (properties msg) = Some (appName f) \<and>
          messageId (properties msg) = Some mid \<and> mid \<noteq> [] \<and>
          headers (properties msg) = Some h \<longrightarrow>
            on_message e f msg s =
              (Inr (), s\<lparr>messagePool := (messagePool s)(mid \<mapsto> msg),
                        emitted := emitted s @
                          [(routingKey msg,
                            JSONMessage (routingKey msg) (content msg) mid
                              (timestamp (properties msg)) (parentMessage h))]\<rparr>)
          \<and> messagePool (snd (on_message e f msg s)) mid = Some msg
          \<and> trace (snd (on_message e f msg s)) = trace s)"
  using assms
  by (auto simp: on_message_def Let_def channel_call_trace channel_call_unchanged
      split: option.splits)

text \<open>
  The theorem at four deliveries: one of another application, one without identifier,
  one with the empty identifier, and one that is dispatched.
\<close>

theorem inbound_dispatch_witness:
  "channel connected
   \<and> trace (snd (on_message accepting orders
                   (delivery (Some ''m1'') None\<lparr>properties :=
                      properties (delivery (Some ''m1'') None)\<lparr>appId := Some ''other''\<rparr>\<rparr>) connected)) =
       [Ack (Some (delivery (Some ''m1'') None\<lparr>properties :=
                      properties (delivery (Some ''m1'') None)\<lparr>appId := Some ''other''\<rparr>\<rparr>))]
   \<and> on_message accepting orders (delivery None None) connected =
       (Inr (), connected\<lparr>trace := [Ack (Some (delivery None None))]\<rparr>)
   \<and> on_message accepting orders (delivery (Some '''') None) connected =
       (Inr (), connected\<lparr>trace := [Ack (Some (delivery (Some '''') None))]\<rparr>)
   \<and> on_message accepting orders (delivery (Some ''m1'') None) connected =
       (Inr (), connected
          \<lparr>messagePool := [''m1'' \<mapsto> delivery (Some ''m1'') None],
            emitted := [(''order.created'',
                         JSONMessage ''order.created'' ''{}'' ''m1'' (Some 5) (Some ''p0''))]\<rparr>)"
proof -
  let ?foreign = "delivery (Some ''m1'') None\<lparr>properties :=
                      properties (delivery (Some ''m1'') None)\<lparr>appId := Some ''other''\<rparr>\<rparr>"
  have chan: "channel connected"
    by (simp add: connected_def)
  have 1: "trace (snd (on_message accepting orders ?foreign connected)) = [Ack (Some ?foreign)]"
    using inbound_dispatch [OF chan, where msg = ?foreign and f = orders and e = accepting]
    by (simp add: connected_def delivery_def orders_def RabbitMQConnectionFacade_def)
  have 2: "on_message accepting orders (delivery None None) connected =
       (Inr (), connected\<lparr>trace := [Ack (Some (delivery None None))]\<rparr>)"
    by (simp add: on_message_def connected_def delivery_def orders_def
        RabbitMQConnectionFacade_def channel_call_def call_def accepting_def)
  have 3: "on_message accepting orders (delivery (Some '''') None) connected =
       (Inr (), connected\<lparr>trace := [Ack (Some (delivery (Some '''') None))]\<rparr>)"
    by (simp add: on_message_def connected_def delivery_def orders_def
        RabbitMQConnectionFacade_def channel_call_def call_def accepting_def)
  have 4: "on_message accepting orders (delivery (Some ''m1'') None) connected =
       (Inr (), connected
          \<lparr>messagePool := [''m1'' \<mapsto> delivery (Some ''m1'') None],
            emitted := [(''order.created'',
                         JSONMessage ''order.created'' ''{}'' ''m1'' (Some 5) (Some ''p0''))]\<rparr>)"
    using inbound_dispatch [OF chan, where msg = "delivery (Some ''m1'') None" and f = orders
        and mid = "''m1''" and e = accepting
        and h = "\<lparr>x_death = None, parentMessage = Some ''p0''\<rparr>"]
    by (simp add: connected_def delivery_def orders_def RabbitMQConnectionFacade_def)
  show ?thesis
    using chan 1 2 3 4 by blast
qed

text \<open>
  Claim C3 as it is worded fails for a delivery of the application that carries an
  identifier and no headers table: it is stored in the table, and the callback then
  raises, having handed nothing to the emitter and acked nothing.
\<close>

theorem inbound_dispatch_bare_counterexample:
  "appId (properties bare_delivery) = Some (appName orders)
   \<and> messageId (properties bare_delivery) = Some ''m2''
   \<and> on_message accepting orders bare_delivery connected =
       (Inl TypeError, connected\<lparr>messagePool := [''m2'' \<mapsto> bare_delivery]\<rparr>)
   \<and> emitted (snd (on_message accepting orders bare_delivery connected)) = []
   \<and> trace (snd (on_message accepting orders bare_delivery connected)) = []"
  by (simp add: on_message_def bare_delivery_def orders_def RabbitMQConnectionFacade_def
      connected_def)

text \<open>
  Claim C7. Let a message be published without error and let a raw delivery carry what
  the publication carried. When the consumer of a facade receives that delivery, it
  dispatches it exactly when the facade has the application identity of the publisher and
  the identifier of the message is not empty, and the message it hands to the emitter then
  has the identifier and the parent identifier of the published message.
\<close>

theorem lineage_round_trip:
  assumes "fst (publish e f message alternativeExchange s) = Inr ()"
    and "delivery_of (last (trace (snd (publish e f message alternativeExchange s)))) msg"
  shows "(appName f' = appName f \<and> getUUID message \<noteq> [] \<longrightarrow>
            (let out = JSONMessage (getDescriptor message) (getSerializedContent message)
                         (getUUID message) (timestamp (properties msg))
                         (getParentMessage message)
             in emitted (snd (on_message e' f' msg s')) =
                  emitted s' @ [(getDescriptor message, out)]
              \<and> getUUID out = getUUID message
              \<and> getParentMessage out = getParentMessage message))
       \<and> (\<not> (appName f' = appName f \<and> getUUID message \<noteq> []) \<longrightarrow>
            emitted (snd (on_message e' f' msg s')) = emitted s')"
proof -
  from assms(1) have chan: "channel s"
    by (auto simp: publish_def Let_def split: if_splits)
  from assms(2) chan
  have props: "routingKey msg = getDescriptor message"
    "content msg = getSerializedContent message"
    "messageId (properties msg) = Some (getUUID message)"
    "appId (properties msg) = Some (appName f)"
    "\<exists>h. headers (properties msg) = Some h \<and> parentMessage h = getParentMessage message"
    by (auto simp: publish_def Let_def call_trace split: option.splits)
  show ?thesis
    using props
    by (auto simp: on_message_def Let_def JSONMessage_def channel_call_unchanged
        split: option.splits)
qed

text \<open>
  The theorem at the message \<open>invoice\<close>, identifier \<^verbatim>\<open>u1\<close> and parent \<^verbatim>\<open>m1\<close>,
  published and consumed by the same facade.
\<close>

theorem lineage_round_trip_witness:
  "fst (publish accepting orders invoice None connected) = Inr ()
   \<and> delivery_of (last (trace (snd (publish accepting orders invoice None connected))))
        invoice_delivery
   \<and> getUUID invoice = ''u1'' \<and> getParentMessage invoice = Some ''m1''
   \<and> emitted (snd (on_message accepting orders invoice_delivery connected)) =
       [(''invoice.issued'',
         JSONMessage ''invoice.issued'' ''{a}'' ''u1'' (Some 1000) (Some ''m1''))]"
proof -
  have p: "fst (publish accepting orders invoice None connected) = Inr ()"
    by (simp add: publish_def call_def accepting_def connected_def)
  have d: "delivery_of (last (trace (snd (publish accepting orders invoice None connected))))
        invoice_delivery"
    by (simp add: publish_def call_def accepting_def connected_def invoice_def
        invoice_delivery_def JSONMessage_def orders_def RabbitMQConnectionFacade_def)
  show ?thesis
    using p d lineage_round_trip [OF p d, where f' = orders and e' = accepting and s' = connected]
    by (simp add: invoice_def invoice_delivery_def JSONMessage_def connected_def Let_def)
qed

section \<open>Provisioning the topology\<close>




text \<open>
  Claim C6, as amended. Whenever \<^verbatim>\<open>setUp\<close> returns, among the calls it has made every
  exchange declaration comes before every queue declaration, every queue declaration (that
  of the retry queue too) comes before every binding, and the service exchange is declared
  before the retry queue that names it as its dead-letter exchange.
\<close>

theorem provisioning_order:
  assumes "fst (setUp e f s) = Inr ()"
  shows "all_before is_exchange_declaration is_queue_declaration
           (drop (length (trace s)) (trace (snd (setUp e f s))))
       \<and> all_before is_queue_declaration is_binding
           (drop (length (trace s)) (trace (snd (setUp e f s))))
       \<and> all_before (declares_exchange (exchange f)) (declares_queue (retryQueue f))
           (drop (length (trace s)) (trace (snd (setUp e f s))))
       \<and> (\<exists>c \<in> set (drop (length (trace s)) (trace (snd (setUp e f s)))).
            declares_exchange (exchange f) c)
       \<and> (\<exists>c \<in> set (drop (length (trace s)) (trace (snd (setUp e f s)))).
            declares_queue (retryQueue f) c)"
proof -
  have "snd (setUp e f s) = s\<lparr>trace := trace s @ setUp_calls f\<rparr>"
    using assms unfolding setUp_def by (rule calls_return)
  then have new: "drop (length (trace s)) (trace (snd (setUp e f s))) = setUp_calls f"
    by simp
  show ?thesis
    unfolding new by (simp add: setUp_calls_def)
qed

text \<open>The theorem at the service \<^verbatim>\<open>orders\<close>.\<close>

theorem provisioning_order_witness:
  "fst (setUp accepting orders connected) = Inr ()
   \<and> all_before is_exchange_declaration is_queue_declaration
       (trace (snd (setUp accepting orders connected)))
   \<and> all_before is_queue_declaration is_binding
       (trace (snd (setUp accepting orders connected)))
   \<and> all_before (declares_exchange ''orders'') (declares_queue ''orders_queue_retry'')
       (trace (snd (setUp accepting orders connected)))"
proof -
  have r: "fst (setUp accepting orders connected) = Inr ()"
    by (simp add: setUp_def calls_accepted connected_def accepts_all_accepting)
  show ?thesis
    using r provisioning_order [OF r]
    by (simp add: connected_def orders_def RabbitMQConnectionFacade_def)
qed

text \<open>
  Claim C6 as it is worded fails in its last part: the bindings do not come before the
  declaration of the retry queue, they come after it.
\<close>

theorem provisioning_order_counterexample:
  "fst (setUp accepting orders connected) = Inr ()
   \<and> \<not> all_before is_binding (declares_queue ''orders_queue_retry'')
         (trace (snd (setUp accepting orders connected)))"
  by (simp add: setUp_def setUp_calls_def orders_def RabbitMQConnectionFacade_def
      connected_def channel_call_def call_def accepting_def main_bus_def)

section \<open>Subscriptions\<close>

text \<open>
  Claim C8. Given anything that is not an array (\<^verbatim>\<open>null\<close> among them), or the empty
  array, \<^verbatim>\<open>subscribeAll\<close> makes no call and returns without error. Given an array of
  topics it binds the primary queue to the service exchange under each topic, in the order
  of the array: the calls made are always the bindings of a prefix of the array, they are
  the bindings of the whole array whenever it returns without error, and it returns without
  error when the facade holds its channel and the library accepts every call.
\<close>

theorem subscribe_all:
  "(\<not> isArray v \<longrightarrow> subscribeAll e f v s = (Inr (), s))
   \<and> subscribeAll e f (JArray []) s = (Inr (), s)
   \<and> (\<exists>k \<le> length ds.
         snd (subscribeAll e f (JArray ds) s) =
           s\<lparr>trace := trace s @ map (BindQueue (queue f) (exchange f)) (take k ds)\<rparr>)
   \<and> (fst (subscribeAll e f (JArray ds) s) = Inr () \<longrightarrow>
         snd (subscribeAll e f (JArray ds) s) =
           s\<lparr>trace := trace s @ map (BindQueue (queue f) (exchange f)) ds\<rparr>)
   \<and> (channel s \<and> accepts_all e \<longrightarrow> fst (subscribeAll e f (JArray ds) s) = Inr ())"
proof (intro conjI impI)
  assume "\<not> isArray v"
  then show "subscribeAll e f v s = (Inr (), s)"
    by (cases v) simp_all
next
  show "subscribeAll e f (JArray []) s = (Inr (), s)"
    by simp
next
  from calls_prefix [of "map (BindQueue (queue f) (exchange f)) ds" e s]
  obtain k where "k \<le> length ds"
    "snd (for_each (channel_call e) (map (BindQueue (queue f) (exchange f)) ds) s) =
       s\<lparr>trace := trace s @ take k (map (BindQueue (queue f) (exchange f)) ds)\<rparr>"
    by auto
  then show "\<exists>k \<le> length ds.
         snd (subscribeAll e f (JArray ds) s) =
           s\<lparr>trace := trace s @ map (BindQueue (queue f) (exchange f)) (take k ds)\<rparr>"
    by (auto simp: subscribe_each take_map)
next
  assume "fst (subscribeAll e f (JArray ds) s) = Inr ()"
  then show "snd (subscribeAll e f (JArray ds) s) =
           s\<lparr>trace := trace s @ map (BindQueue (queue f) (exchange f)) ds\<rparr>"
    by (simp add: subscribe_each calls_return)
next
  assume "channel s \<and> accepts_all e"
  then show "fst (subscribeAll e f (JArray ds) s) = Inr ()"
    by (simp add: subscribe_each calls_accepted)
qed

text \<open>The theorem at \<^verbatim>\<open>null\<close>, at the empty array and at an array of two topics.\<close>

theorem subscribe_all_witness:
  "subscribeAll accepting orders JNull connected = (Inr (), connected)
   \<and> subscribeAll accepting orders (JArray []) connected = (Inr (), connected)
   \<and> channel connected \<and> accepts_all accepting
   \<and> subscribeAll accepting orders (JArray [''order.created'', ''order.paid'']) connected =
       (Inr (), connected\<lparr>trace :=
          [BindQueue ''orders_queue'' ''orders'' ''order.created'',
           BindQueue ''orders_queue'' ''orders'' ''order.paid'']\<rparr>)"
proof -
  have chan: "channel connected"
    by (simp add: connected_def)
  note main = subscribe_all [of _ accepting orders connected "[''order.created'', ''order.paid'']"]
  have 1: "subscribeAll accepting orders JNull connected = (Inr (), connected)"
    using subscribe_all [of JNull accepting orders connected] by simp
  have 2: "subscribeAll accepting orders (JArray []) connected = (Inr (), connected)"
    using main by blast
  have r: "fst (subscribeAll accepting orders (JArray [''order.created'', ''order.paid'']) connected)
             = Inr ()"
    using main chan accepts_all_accepting by blast
  with main have "snd (subscribeAll accepting orders
                        (JArray [''order.created'', ''order.paid'']) connected) =
       connected\<lparr>trace := trace connected @
          map (BindQueue (queue orders) (exchange orders)) [''order.created'', ''order.paid'']\<rparr>"
    by blast
  then have "snd (subscribeAll accepting orders
                        (JArray [''order.created'', ''order.paid'']) connected) =
       connected\<lparr>trace :=
          [BindQueue ''orders_queue'' ''orders'' ''order.created'',
           BindQueue ''orders_queue'' ''orders'' ''order.paid'']\<rparr>"
    by (simp add: connected_def orders_def RabbitMQConnectionFacade_def)
  with r have 3: "subscribeAll accepting orders (JArray [''order.created'', ''order.paid'']) connected =
       (Inr (), connected\<lparr>trace :=
          [BindQueue ''orders_queue'' ''orders'' ''order.created'',
           BindQueue ''orders_queue'' ''orders'' ''order.paid'']\<rparr>)"
    by (simp add: prod_eq_iff)
  show ?thesis
    using 1 2 3 chan accepts_all_accepting by blast
qed






section \<open>Teardown\<close>

text \<open>
  Claim C9, as amended. When the facade holds no connection (it has not connected, or it
  has disconnected already), \<^verbatim>\<open>disconnect\<close> makes no call and returns without error.
  When it holds a connection and its channel, it closes the channel and then the
  connection and clears the connection field; an error the library raises for either
  close reaches the caller, whatever its cause, and after an error of the channel's close
  the connection is not closed.
\<close>

theorem disconnect_teardown:
  "(\<not> connection s \<longrightarrow> disconnect e s = (Inr (), s))
   \<and> (connection s \<and> channel s \<and> broker e (trace s) CloseChannel = Some err \<longrightarrow>
         disconnect e s = (Inl err, s\<lparr>trace := trace s @ [CloseChannel]\<rparr>))
   \<and> (connection s \<and> channel s \<and> broker e (trace s) CloseChannel = None \<and>
       broker e (trace s @ [CloseChannel]) CloseConnection = Some err \<longrightarrow>
         disconnect e s = (Inl err, s\<lparr>trace := trace s @ [CloseChannel, CloseConnection]\<rparr>))
   \<and> (connection s \<and> channel s \<and> broker e (trace s) CloseChannel = None \<and>
       broker e (trace s @ [CloseChannel]) CloseConnection = None \<longrightarrow>
         disconnect e s =
           (Inr (), s\<lparr>trace := trace s @ [CloseChannel, CloseConnection],
                     connection := False\<rparr>))
   \<and> (fst (disconnect e s) = Inr () \<longrightarrow> \<not> connection (snd (disconnect e s)))"
  by (auto simp: disconnect_def then_io_def bind_io_def channel_call_def call_def
      split: option.splits)

text \<open>
  The theorem at a connected facade, at one that holds no connection, and at a library
  that rejects the channel's close.
\<close>

theorem disconnect_teardown_witness:
  "disconnect accepting connected =
     (Inr (), connected\<lparr>trace := [CloseChannel, CloseConnection], connection := False\<rparr>)
   \<and> disconnect accepting (connected\<lparr>connection := False\<rparr>) =
     (Inr (), connected\<lparr>connection := False\<rparr>)
   \<and> disconnect refusing connected =
     (Inl (BrokerError ''refused''), connected\<lparr>trace := [CloseChannel]\<rparr>)"
  using disconnect_teardown [of connected accepting]
    disconnect_teardown [of "connected\<lparr>connection := False\<rparr>" accepting]
    disconnect_teardown [of connected refusing "BrokerError ''refused''"]
  by (simp add: connected_def accepting_def refusing_def)

text \<open>
  Claim C9 as it is worded fails: when the channel is closed already and the library
  raises for closing it again, \<^verbatim>\<open>disconnect\<close> does not complete without error, and
  it leaves the connection open.
\<close>

theorem disconnect_closed_channel_counterexample:
  "connection connected
   \<and> disconnect channel_gone connected =
       (Inl (IllegalOperationError ''Channel closed''), connected\<lparr>trace := [CloseChannel]\<rparr>)"
  by (simp add: disconnect_def then_io_def bind_io_def channel_call_def call_def
      channel_gone_def connected_def)

end
